theory Spec2Isabelle
  imports Complex_Main
begin

section \<open>JavaScript values handled by the action controller\<close>

text \<open>
  The controller receives a JSON envelope, looks the action up in a module-level object
  and forwards a JSON body with \<open>fetch\<close>. The values it touches are the values
  \<open>JSON.parse\<close> produces. A finite double is a rational number, and the program only
  tests numbers for truthiness and prints them, so a number is a \<open>rat\<close>.
  An object is the list of its own enumerable properties in property order, each key once;
  a string is the list of its code units; \<open>undefined\<close> is \<open>None\<close> of an option type.
\<close>

datatype json =
    JNull
  | JBool bool
  | JNum rat
  | JStr string
  | JArr "json list"
  | JObj "(string \<times> json) list"

text \<open>An \<open>Error\<close> object: its \<open>name\<close> (the constructor) and its \<open>message\<close>.\<close>

datatype js_error = JsError (err_name: string) (message: string)

text \<open>JavaScript truthiness, as used by \<open>!x\<close> and \<open>x ? a : b\<close>; \<open>undefined\<close> is
  falsy and is treated where a value may be absent.\<close>

fun truthy :: "json \<Rightarrow> bool" where
  "truthy JNull = False"
| "truthy (JBool b) = b"
| "truthy (JNum n) = (n \<noteq> 0)"
| "truthy (JStr s) = (s \<noteq> [])"
| "truthy (JArr xs) = True"
| "truthy (JObj kvs) = True"

subsection \<open>Objects: own properties, assignment, spread\<close>

text \<open>
  \<open>obj_put\<close> is the definition of an own data property: an existing key keeps its
  place and takes the new value, a new key goes to the end. \<open>obj_spread t s\<close> is
  \<open>{...t, ...s}\<close>: the properties of \<open>s\<close> are defined on a copy of \<open>t\<close> in order.
  (Keys that are array indices are enumerated first by JavaScript; the program's registry
  keys are not of that form.)
\<close>

fun obj_put :: "(string \<times> 'v) list \<Rightarrow> string \<Rightarrow> 'v \<Rightarrow> (string \<times> 'v) list" where
  "obj_put [] k v = [(k, v)]"
| "obj_put ((k', v') # kvs) k v =
     (if k' = k then (k, v) # kvs else (k', v') # obj_put kvs k v)"

definition obj_spread ::
  "(string \<times> 'v) list \<Rightarrow> (string \<times> 'v) list \<Rightarrow> (string \<times> 'v) list" where
  "obj_spread t s = foldl (\<lambda>acc (k, v). obj_put acc k v) t s"

text \<open>
  The properties every object literal inherits from \<open>Object.prototype\<close>. Each of them
  is a function, or (for \<open>__proto__\<close>) the prototype object itself: truthy values without
  a \<open>url\<close> or \<open>method\<close> property.
\<close>

definition object_prototype_keys :: "string list" where
  "object_prototype_keys =
     [''constructor'', ''__defineGetter__'', ''__defineSetter__'', ''hasOwnProperty'',
      ''__lookupGetter__'', ''__lookupSetter__'', ''isPrototypeOf'',
      ''propertyIsEnumerable'', ''toString'', ''valueOf'', ''__proto__'',
      ''toLocaleString'']"

section \<open>services/hr.ts and the registry of router.ts\<close>

record ServiceConfig = url :: string  "method" :: string

type_synonym registry = "(string \<times> ServiceConfig) list"

text \<open>\<open>process.env.HR_SERVICE_URL || 'http://localhost:3001'\<close>: an unset or empty variable
  falls back to the default.\<close>

definition HR_SERVICE_BASE_URL :: "string option \<Rightarrow> string" where
  "HR_SERVICE_BASE_URL env =
     (case env of
        None \<Rightarrow> ''http://localhost:3001''
      | Some s \<Rightarrow> if s = [] then ''http://localhost:3001'' else s)"

definition hrServiceConfig :: "string option \<Rightarrow> registry" where
  "hrServiceConfig env =
     [(''CreateEmployee'',
         \<lparr>url = HR_SERVICE_BASE_URL env @ ''/employees/create'', method = ''POST''\<rparr>),
      (''UpdateEmployee'',
         \<lparr>url = HR_SERVICE_BASE_URL env @ ''/employees/update'', method = ''POST''\<rparr>),
      (''DeleteEmployee'',
         \<lparr>url = HR_SERVICE_BASE_URL env @ ''/employees/delete'', method = ''POST''\<rparr>),
      (''GetEmployee'',
         \<lparr>url = HR_SERVICE_BASE_URL env @ ''/employees/get'', method = ''GET''\<rparr>)]"

text \<open>
  The registry is the object literal \<open>{ ...hrServiceConfig }\<close>, to which further service
  configurations are added as further spreads. \<open>mergeConfigs\<close> is that literal for a list
  of spread operands, left to right; \<open>actionRegistry\<close> is the one the source builds.
\<close>

definition mergeConfigs :: "registry list \<Rightarrow> registry" where
  "mergeConfigs parts = foldl obj_spread [] parts"

definition actionRegistry :: "string option \<Rightarrow> registry" where
  "actionRegistry env = mergeConfigs [hrServiceConfig env]"

text \<open>\<open>Object.keys(actionRegistry)\<close>.\<close>

definition getRegisteredActions :: "registry \<Rightarrow> string list" where
  "getRegisteredActions reg = map fst reg"

text \<open>
  \<open>actionRegistry[key]\<close>: an own property wins, then the prototype chain is searched,
  and only a name found in neither gives \<open>undefined\<close>.
\<close>

datatype lookup_result =
    OwnConfig ServiceConfig
  | Inherited string
  | NoProperty

definition registry_get :: "registry \<Rightarrow> string \<Rightarrow> lookup_result" where
  "registry_get reg key =
     (case map_of reg key of
        Some cfg \<Rightarrow> OwnConfig cfg
      | None \<Rightarrow> if key \<in> set object_prototype_keys then Inherited key else NoProperty)"

section \<open>Conversion to string and property enumeration\<close>

text \<open>Decimal digits of a natural number: how JavaScript prints an array index or an
  HTTP status code.\<close>

function string_of_nat :: "nat \<Rightarrow> string" where
  "string_of_nat n =
     (if n < 10 then [char_of (48 + n)]
      else string_of_nat (n div 10) @ [char_of (48 + n mod 10)])"
  by pat_completeness auto
termination
  by (relation "measure id") auto

declare string_of_nat.simps [simp del]

text \<open>
  \<open>ToString\<close> is what a template literal \<open>`${v}`\<close> and a property access \<open>o[v]\<close> apply
  to \<open>v\<close>. A string is itself; an array joins its elements with commas, \<open>null\<close> elements
  printing as nothing; a parsed object prints as \<open>[object Object]\<close> through the inherited
  \<open>toString\<close>, unless it has an own property of that name: a parsed value is never
  callable, \<open>valueOf\<close> returns no primitive, and the conversion throws a TypeError.
  The printing of a number is the runtime's \<open>Number.prototype.toString\<close>, a parameter.
\<close>

definition cannot_convert :: js_error where
  "cannot_convert = JsError ''TypeError'' ''Cannot convert object to primitive value''"

fun ToString :: "(rat \<Rightarrow> string) \<Rightarrow> json \<Rightarrow> js_error + string"
  and join_elements :: "(rat \<Rightarrow> string) \<Rightarrow> json list \<Rightarrow> js_error + string" where
  "ToString ns JNull = Inr ''null''"
| "ToString ns (JBool b) = Inr (if b then ''true'' else ''false'')"
| "ToString ns (JNum n) = Inr (ns n)"
| "ToString ns (JStr s) = Inr s"
| "ToString ns (JArr xs) = join_elements ns xs"
| "ToString ns (JObj kvs) =
     (if ''toString'' \<in> set (map fst kvs) then Inl cannot_convert
      else Inr ''[object Object]'')"
| "join_elements ns [] = Inr []"
| "join_elements ns (x # xs) =
     (case (if x = JNull then Inr [] else ToString ns x) of
        Inl e \<Rightarrow> Inl e
      | Inr s \<Rightarrow>
          if xs = [] then Inr s
          else (case join_elements ns xs of
                  Inl e \<Rightarrow> Inl e
                | Inr r \<Rightarrow> Inr (s @ '','' @ r)))"

text \<open>
  The own enumerable properties an object spread \<open>{...v}\<close> copies: those of an object,
  the indexed elements of an array, the indexed characters of a string, and nothing for a
  number or a boolean.
\<close>

definition index_keys :: "nat \<Rightarrow> string list" where
  "index_keys n = map string_of_nat [0..<n]"

fun own_properties :: "json \<Rightarrow> (string \<times> json) list" where
  "own_properties (JObj kvs) = kvs"
| "own_properties (JArr xs) = zip (index_keys (length xs)) xs"
| "own_properties (JStr s) = zip (index_keys (length s)) (map (\<lambda>c. JStr [c]) s)"
| "own_properties JNull = []"
| "own_properties (JBool b) = []"
| "own_properties (JNum n) = []"

text \<open>
  Reading one of the properties \<open>action\<close>, \<open>args\<close>, \<open>mode\<close> in the destructuring of the
  request body. No prototype defines a property of these names, so only an own property
  of an object is found.
\<close>

fun destructure :: "json \<Rightarrow> string \<Rightarrow> json option" where
  "destructure (JObj kvs) k = map_of kvs k"
| "destructure v k = None"

definition startsWith :: "string \<Rightarrow> string \<Rightarrow> bool" where
  "startsWith s p = (take (length p) s = p)"

section \<open>The process: console, network, registry\<close>

datatype log_arg = LStr string | LVal json | LErr js_error

datatype log_line = ConsoleLog "log_arg list" | ConsoleError "log_arg list"

text \<open>The second argument of \<open>fetch\<close>; \<open>JSON_stringify v\<close> stands for the text
  \<open>JSON.stringify(v)\<close>, \<open>NoBody\<close> for \<open>undefined\<close>.\<close>

datatype body_init = NoBody | JSON_stringify json

record fetch_call =
  req_url :: "string option"
  req_method :: string
  req_headers :: "(string \<times> string) list"
  req_body :: body_init

text \<open>What \<open>fetch\<close> resolves to: the status and the outcome of \<open>response.json()\<close>,
  which rejects when the body is not JSON.\<close>

record fetch_response =
  resp_status :: nat
  resp_json :: "js_error + json"

text \<open>
  The runtime the program runs on: number printing, and \<open>fetch\<close> with the downstream
  service behind it, which either rejects (no connection, bad URL) or resolves.
\<close>

record runtime =
  number_to_string :: "rat \<Rightarrow> string"
  fetch :: "fetch_call \<Rightarrow> js_error + fetch_response"

text \<open>
  The state of the process: the module-level registry of router.ts, the lines written to
  the console, and the requests handed to \<open>fetch\<close> so far.
\<close>

record world =
  registry :: registry
  console :: "log_line list"
  outbound :: "fetch_call list"

definition console_write :: "world \<Rightarrow> log_line \<Rightarrow> world" where
  "console_write w l = w\<lparr>console := console w @ [l]\<rparr>"

section \<open>services/httpClient.ts\<close>

record forward_result =
  status :: nat
  data :: json

text \<open>\<open>`${url}`\<close> for a URL that may be \<open>undefined\<close>.\<close>

definition url_text :: "string option \<Rightarrow> string" where
  "url_text u = (case u of None \<Rightarrow> ''undefined'' | Some s \<Rightarrow> s)"

definition makeRequest ::
  "runtime \<Rightarrow> world \<Rightarrow> string option \<Rightarrow> string option \<Rightarrow> (string \<times> string) list option
     \<Rightarrow> json option \<Rightarrow> (js_error + forward_result) \<times> world" where
  "makeRequest rt w url_arg method_opt headers_opt body_opt =
     (let method_used = (case method_opt of None \<Rightarrow> ''POST'' | Some m \<Rightarrow> m);
          headers_used = (case headers_opt of None \<Rightarrow> [] | Some h \<Rightarrow> h);
          w1 = console_write w
                 (ConsoleLog [LStr (''[HTTP Client] '' @ method_used @ '' '' @ url_text url_arg)]);
          call = \<lparr>req_url = url_arg,
                  req_method = method_used,
                  req_headers = obj_spread [(''Content-Type'', ''application/json'')] headers_used,
                  req_body = (case body_opt of
                                None \<Rightarrow> NoBody
                              | Some b \<Rightarrow> if truthy b then JSON_stringify b else NoBody)\<rparr>;
          w2 = w1\<lparr>outbound := outbound w1 @ [call]\<rparr>
      in case fetch rt call of
           Inl e \<Rightarrow>
             (Inl e, console_write w2 (ConsoleError [LStr ''[HTTP Client] Error:'', LErr e]))
         | Inr response \<Rightarrow>
             (case resp_json response of
                Inl e \<Rightarrow>
                  (Inl e, console_write w2 (ConsoleError [LStr ''[HTTP Client] Error:'', LErr e]))
              | Inr d \<Rightarrow>
                  (Inr \<lparr>status = resp_status response, data = d\<rparr>,
                   console_write w2
                     (ConsoleLog [LStr (''[HTTP Client] Response status: ''
                                         @ string_of_nat (resp_status response))]))))"

section \<open>router.ts\<close>

record ActionPayload =
  action :: json
  args :: json
  mode :: json

text \<open>The object literal \<open>{ ...args, mode }\<close>.\<close>

definition outbound_body :: "json \<Rightarrow> json \<Rightarrow> json" where
  "outbound_body a m = JObj (obj_put (obj_spread [] (own_properties a)) ''mode'' m)"

text \<open>The first log line evaluates \<open>`${action}`\<close> and then \<open>`${mode}`\<close>; a conversion
  that throws leaves \<open>routeAction\<close> before anything is written.\<close>

definition routeAction ::
  "runtime \<Rightarrow> world \<Rightarrow> ActionPayload \<Rightarrow> (js_error + forward_result) \<times> world" where
  "routeAction rt w payload =
     (case ToString (number_to_string rt) (action payload) of
        Inl e \<Rightarrow> (Inl e, w)
      | Inr name \<Rightarrow>
          (case ToString (number_to_string rt) (mode payload) of
             Inl e \<Rightarrow> (Inl e, w)
           | Inr mode_text \<Rightarrow>
               (let w1 = console_write w
                           (ConsoleLog [LStr (''[Router] Received action: '' @ name
                                               @ '' (mode: '' @ mode_text @ '')'')]);
                    w2 = console_write w1
                           (ConsoleLog [LStr ''[Router] Arguments:'', LVal (args payload)])
                in case registry_get (registry w2) name of
                     NoProperty \<Rightarrow>
                       (Inl (JsError ''Error'' (''Unknown action: '' @ name)), w2)
                   | OwnConfig cfg \<Rightarrow>
                       makeRequest rt
                         (console_write w2
                            (ConsoleLog [LStr (''[Router] Routing to: '' @ url cfg)]))
                         (Some (url cfg)) (Some (method cfg)) None
                         (Some (outbound_body (args payload) (mode payload)))
                   | Inherited k \<Rightarrow>
                       makeRequest rt
                         (console_write w2
                            (ConsoleLog [LStr (''[Router] Routing to: '' @ ''undefined'')]))
                         None None None
                         (Some (outbound_body (args payload) (mode payload))))))"

section \<open>index.ts: the handler of POST /actions/execute\<close>

record http_response =
  res_status :: nat
  res_body :: json

definition missing_action :: http_response where
  "missing_action =
     \<lparr>res_status = 400,
      res_body = JObj [(''error'', JStr ''Missing required field: action'')]\<rparr>"

definition missing_args :: http_response where
  "missing_args =
     \<lparr>res_status = 400,
      res_body = JObj [(''error'', JStr ''Missing required field: args'')]\<rparr>"

definition invalid_mode :: http_response where
  \<open>invalid_mode =
     \<lparr>res_status = 400,
      res_body = JObj [(''error'',
        JStr ''Invalid or missing mode. Must be "simulate" or "execute"'')]\<rparr>\<close>

text \<open>The \<open>catch\<close> block: the error is logged, then classified by its message.\<close>

definition on_error :: "world \<Rightarrow> js_error \<Rightarrow> http_response \<times> world" where
  "on_error w e =
     (let w' = console_write w (ConsoleError [LStr ''[Action Controller] Error:'', LErr e])
      in if startsWith (message e) ''Unknown action:''
         then (\<lparr>res_status = 404,
                 res_body = JObj [(''error'', JStr (message e)),
                                  (''availableActions'',
                                     JArr (map JStr (getRegisteredActions (registry w'))))]\<rparr>,
               w')
         else (\<lparr>res_status = 500,
                 res_body = JObj [(''error'', JStr ''Internal server error''),
                                  (''message'', JStr (message e))]\<rparr>,
               w'))"

definition cannot_destructure :: "string \<Rightarrow> js_error" where
  "cannot_destructure what =
     JsError ''TypeError''
       (''Cannot destructure property 'action' of 'req.body' as it is '' @ what @ ''.'')"

text \<open>
  \<open>req.body\<close> is \<open>undefined\<close> (\<open>None\<close>) when no body was parsed; destructuring
  \<open>undefined\<close> or \<open>null\<close> throws inside the \<open>try\<close>. The three checks follow in the
  source's order, each returning at once.
\<close>

definition execute_handler :: "runtime \<Rightarrow> world \<Rightarrow> json option \<Rightarrow> http_response \<times> world" where
  "execute_handler rt w req_body_opt =
     (case req_body_opt of
        None \<Rightarrow> on_error w (cannot_destructure ''undefined'')
      | Some b \<Rightarrow>
          if b = JNull then on_error w (cannot_destructure ''null'')
          else
            (case destructure b ''action'' of
               None \<Rightarrow> (missing_action, w)
             | Some a \<Rightarrow>
                 if \<not> truthy a then (missing_action, w)
                 else
                   (case destructure b ''args'' of
                      None \<Rightarrow> (missing_args, w)
                    | Some ar \<Rightarrow>
                        if \<not> truthy ar then (missing_args, w)
                        else
                          (case destructure b ''mode'' of
                             None \<Rightarrow> (invalid_mode, w)
                           | Some m \<Rightarrow>
                               if \<not> truthy m
                                  \<or> m \<notin> set [JStr ''simulate'', JStr ''execute'']
                               then (invalid_mode, w)
                               else
                                 (case routeAction rt w \<lparr>action = a, args = ar, mode = m\<rparr> of
                                    (Inr result, w') \<Rightarrow>
                                      (\<lparr>res_status = status result,
                                        res_body = data result\<rparr>, w')
                                  | (Inl e, w') \<Rightarrow> on_error w' e)))))"

section \<open>Auxiliary definitions for the statements\<close>

text \<open>The request \<open>makeRequest\<close> hands to \<open>fetch\<close> for given arguments.\<close>

definition built_call ::
  "string option \<Rightarrow> string option \<Rightarrow> (string \<times> string) list option \<Rightarrow> json option
     \<Rightarrow> fetch_call" where
  "built_call u m h b =
     \<lparr>req_url = u,
      req_method = (case m of None \<Rightarrow> ''POST'' | Some x \<Rightarrow> x),
      req_headers = obj_spread [(''Content-Type'', ''application/json'')]
                      (case h of None \<Rightarrow> [] | Some x \<Rightarrow> x),
      req_body = (case b of
                    None \<Rightarrow> NoBody
                  | Some v \<Rightarrow> if truthy v then JSON_stringify v else NoBody)\<rparr>"

text \<open>\<open>!x\<close> for a property that may be absent.\<close>

definition falsy :: "json option \<Rightarrow> bool" where
  "falsy x = (case x of None \<Rightarrow> True | Some v \<Rightarrow> \<not> truthy v)"

text \<open>The request body \<open>b\<close> passes the three checks of the handler, with the fields
  \<open>a\<close>, \<open>ar\<close> and \<open>m\<close>.\<close>

definition accepted :: "json \<Rightarrow> json \<Rightarrow> json \<Rightarrow> json \<Rightarrow> bool" where
  "accepted b a ar m \<longleftrightarrow>
     b \<noteq> JNull
     \<and> destructure b ''action'' = Some a \<and> truthy a
     \<and> destructure b ''args'' = Some ar \<and> truthy ar
     \<and> destructure b ''mode'' = Some m \<and> (m = JStr ''simulate'' \<or> m = JStr ''execute'')"

subsection \<open>Concrete runtimes, worlds and requests\<close>

text \<open>Prints the non-negative integers, the only numbers the examples contain.\<close>

definition print_integer :: "rat \<Rightarrow> string" where
  "print_integer q = string_of_nat (nat \<lfloor>q\<rfloor>)"

definition created_response :: fetch_response where
  "created_response =
     \<lparr>resp_status = 200,
      resp_json = Inr (JObj [(''id'', JStr ''emp_123''), (''status'', JStr ''created'')])\<rparr>"

text \<open>
  What Node's \<open>fetch\<close> rejects before it connects: a URL that is \<open>undefined\<close>, and a
  \<open>GET\<close> or \<open>HEAD\<close> request that carries a body.
\<close>

definition node_rejects :: "fetch_call \<Rightarrow> js_error option" where
  "node_rejects c =
     (if req_url c = None
      then Some (JsError ''TypeError'' ''Failed to parse URL from undefined'')
      else if (req_method c = ''GET'' \<or> req_method c = ''HEAD'') \<and> req_body c \<noteq> NoBody
      then Some (JsError ''TypeError'' ''Request with GET/HEAD method cannot have body.'')
      else None)"

text \<open>A downstream that answers every request it receives with \<open>200\<close>.\<close>

definition fetch_created :: "fetch_call \<Rightarrow> js_error + fetch_response" where
  "fetch_created c =
     (case node_rejects c of Some e \<Rightarrow> Inl e | None \<Rightarrow> Inr created_response)"

definition runtime_created :: runtime where
  "runtime_created = \<lparr>number_to_string = print_integer, fetch = fetch_created\<rparr>"

text \<open>A downstream that cannot be reached.\<close>

definition fetch_refused :: "fetch_call \<Rightarrow> js_error + fetch_response" where
  "fetch_refused c =
     (case node_rejects c of
        Some e \<Rightarrow> Inl e
      | None \<Rightarrow> Inl (JsError ''TypeError'' ''fetch failed''))"

definition runtime_refused :: runtime where
  "runtime_refused = \<lparr>number_to_string = print_integer, fetch = fetch_refused\<rparr>"

text \<open>A downstream that answers \<open>502\<close> with an HTML page, which is no JSON.\<close>

definition fetch_html :: "fetch_call \<Rightarrow> js_error + fetch_response" where
  "fetch_html c =
     (case node_rejects c of
        Some e \<Rightarrow> Inl e
      | None \<Rightarrow>
          Inr \<lparr>resp_status = 502,
               resp_json = Inl (JsError ''SyntaxError''
                                  ''Unexpected token < in JSON at position 0'')\<rparr>)"

definition runtime_html :: runtime where
  "runtime_html = \<lparr>number_to_string = print_integer, fetch = fetch_html\<rparr>"

text \<open>A downstream that answers \<open>422\<close> with a JSON body.\<close>

definition fetch_unprocessable :: "fetch_call \<Rightarrow> js_error + fetch_response" where
  "fetch_unprocessable c =
     (case node_rejects c of
        Some e \<Rightarrow> Inl e
      | None \<Rightarrow>
          Inr \<lparr>resp_status = 422,
               resp_json = Inr (JObj [(''reason'', JStr ''email taken'')])\<rparr>)"

definition runtime_unprocessable :: runtime where
  "runtime_unprocessable = \<lparr>number_to_string = print_integer, fetch = fetch_unprocessable\<rparr>"

text \<open>The process right after start, with \<open>HR_SERVICE_URL\<close> unset.\<close>

definition started :: world where
  "started = \<lparr>registry = actionRegistry None, console = [], outbound = []\<rparr>"

definition envelope :: "json \<Rightarrow> json \<Rightarrow> json \<Rightarrow> json" where
  "envelope a ar m = JObj [(''action'', a), (''args'', ar), (''mode'', m)]"

definition alice :: json where
  "alice = JObj [(''name'', JStr ''Alice Smith''), (''email'', JStr ''alice@company.com'')]"

text \<open>A second service configuration that defines \<open>GetEmployee\<close> again.\<close>

definition financeServiceConfig :: registry where
  "financeServiceConfig =
     [(''CreateInvoice'', \<lparr>url = ''http://localhost:3002/invoices/create'', method = ''POST''\<rparr>),
      (''GetEmployee'', \<lparr>url = ''http://localhost:3002/payroll/employee'', method = ''POST''\<rparr>)]"

section \<open>Properties of objects\<close>

lemma map_of_obj_put: "map_of (obj_put kvs k v) = (map_of kvs)(k \<mapsto> v)"
  by (induction kvs) (auto simp: fun_eq_iff)

lemma map_of_obj_spread: "map_of (obj_spread t s) = map_of t ++ map_of (rev s)"
  unfolding obj_spread_def
proof (induction s arbitrary: t)
  case Nil
  show ?case by simp
next
  case (Cons p s)
  obtain k v where p: "p = (k, v)" by (cases p)
  have "map_of (foldl (\<lambda>acc (k, v). obj_put acc k v) (obj_put t k v) s)
          = map_of (obj_put t k v) ++ map_of (rev s)"
    by (rule Cons.IH)
  then show ?case
    by (simp add: p map_of_obj_put fun_eq_iff map_add_def split: option.splits)
qed

lemma map_of_rev_distinct: "distinct (map fst xs) \<Longrightarrow> map_of (rev xs) = map_of xs"
proof (induction xs)
  case Nil
  show ?case by simp
next
  case (Cons p xs)
  obtain k v where p: "p = (k, v)" by (cases p)
  from Cons.prems have "map_of xs k = None"
    by (simp add: p map_of_eq_None_iff)
  with Cons show ?case
    by (auto simp: p fun_eq_iff map_add_def split: option.splits)
qed

lemma obj_put_fresh: "k \<notin> fst ` set t \<Longrightarrow> obj_put t k v = t @ [(k, v)]"
  by (induction t) auto

lemma obj_spread_distinct: "distinct (map fst (t @ s)) \<Longrightarrow> obj_spread t s = t @ s"
  unfolding obj_spread_def
proof (induction s arbitrary: t)
  case Nil
  show ?case by simp
next
  case (Cons p s)
  obtain k v where p: "p = (k, v)" by (cases p)
  from Cons.prems have fresh: "k \<notin> fst ` set t" by (auto simp: p)
  from Cons.prems have "distinct (map fst ((t @ [(k, v)]) @ s))" by (simp add: p)
  then have "foldl (\<lambda>acc (k, v). obj_put acc k v) (t @ [(k, v)]) s = (t @ [(k, v)]) @ s"
    by (rule Cons.IH)
  then show ?case by (simp add: p obj_put_fresh [OF fresh])
qed

lemma mergeConfigs_two: "map_of (mergeConfigs [p1, p2]) = map_of (rev p1) ++ map_of (rev p2)"
  by (simp add: mergeConfigs_def map_of_obj_spread)

section \<open>The registry merge\<close>

text \<open>
  Claim C6. Merging per-service mappings into the registry is last-write-wins: when the
  mapping merged last defines an action name, the merged registry resolves that name to
  the descriptor of that mapping, whatever an earlier mapping says about the name. The
  merge is a total function: a collision is no failure.
\<close>

theorem merge_last_write_wins:
  assumes "distinct (map fst p2)" and "map_of p2 x = Some d2"
  shows "registry_get (mergeConfigs [p1, p2]) x = OwnConfig d2"
  using assms by (simp add: registry_get_def mergeConfigs_two map_of_rev_distinct)

theorem merge_last_write_wins_witness:
  "map_of (hrServiceConfig None) ''GetEmployee''
     = Some \<lparr>url = ''http://localhost:3001/employees/get'', method = ''GET''\<rparr>
   \<and> distinct (map fst financeServiceConfig)
   \<and> map_of financeServiceConfig ''GetEmployee''
     = Some \<lparr>url = ''http://localhost:3002/payroll/employee'', method = ''POST''\<rparr>
   \<and> registry_get (mergeConfigs [hrServiceConfig None, financeServiceConfig]) ''GetEmployee''
     = OwnConfig \<lparr>url = ''http://localhost:3002/payroll/employee'', method = ''POST''\<rparr>"
proof -
  have d: "distinct (map fst financeServiceConfig)"
    by (simp add: financeServiceConfig_def)
  have m: "map_of financeServiceConfig ''GetEmployee''
             = Some \<lparr>url = ''http://localhost:3002/payroll/employee'', method = ''POST''\<rparr>"
    by (simp add: financeServiceConfig_def)
  have h: "map_of (hrServiceConfig None) ''GetEmployee''
             = Some \<lparr>url = ''http://localhost:3001/employees/get'', method = ''GET''\<rparr>"
    by (simp add: hrServiceConfig_def HR_SERVICE_BASE_URL_def)
  show ?thesis
    using merge_last_write_wins [OF d m, of "hrServiceConfig None"] d m h by simp
qed

section \<open>What the functions do to the process state\<close>

lemma console_write_fields [simp]:
  "registry (console_write w l) = registry w"
  "outbound (console_write w l) = outbound w"
  "console (console_write w l) = console w @ [l]"
  by (simp_all add: console_write_def)

lemma makeRequest_registry: "registry (snd (makeRequest rt w u m h b)) = registry w"
  by (simp add: makeRequest_def Let_def split: sum.splits)

lemma makeRequest_outbound:
  "outbound (snd (makeRequest rt w u m h b)) = outbound w @ [built_call u m h b]"
  by (simp add: makeRequest_def built_call_def Let_def split: sum.splits)

lemma makeRequest_result:
  "fst (makeRequest rt w u m h b) =
     (case fetch rt (built_call u m h b) of
        Inl e \<Rightarrow> Inl e
      | Inr r \<Rightarrow> (case resp_json r of
                   Inl e \<Rightarrow> Inl e
                 | Inr d \<Rightarrow> Inr \<lparr>status = resp_status r, data = d\<rparr>))"
  by (simp add: makeRequest_def built_call_def Let_def split: sum.splits)

lemma routeAction_registry: "registry (snd (routeAction rt w p)) = registry w"
  by (simp add: routeAction_def Let_def makeRequest_registry
           split: sum.splits lookup_result.splits)

lemma routeAction_result_cong:
  "registry w = registry w' \<Longrightarrow> fst (routeAction rt w p) = fst (routeAction rt w' p)"
  by (simp add: routeAction_def Let_def makeRequest_result
           split: sum.splits lookup_result.splits)

lemma on_error_registry: "registry (snd (on_error w e)) = registry w"
  by (simp add: on_error_def Let_def)

lemma on_error_cong: "registry w = registry w' \<Longrightarrow> fst (on_error w e) = fst (on_error w' e)"
  by (simp add: on_error_def Let_def)

lemma finish_registry:
  "registry (snd (case x of (Inr result, w') \<Rightarrow> (f result, w') | (Inl e, w') \<Rightarrow> on_error w' e))
     = registry (snd x)"
  by (cases x) (simp add: on_error_registry split: sum.splits)

lemma finish_cong:
  assumes "fst x = fst y" and "registry (snd x) = registry (snd y)"
  shows "fst (case x of (Inr result, w') \<Rightarrow> (f result, w') | (Inl e, w') \<Rightarrow> on_error w' e)
       = fst (case y of (Inr result, w') \<Rightarrow> (f result, w') | (Inl e, w') \<Rightarrow> on_error w' e)"
proof (cases x)
  case x: (Pair rx wx)
  show ?thesis
  proof (cases y)
    case y: (Pair ry wy)
    from assms x y have "rx = ry" and "registry wx = registry wy" by simp_all
    then show ?thesis
      using on_error_cong [of wx wy] by (simp add: x y split: sum.splits)
  qed
qed

lemma handler_registry: "registry (snd (execute_handler rt w body)) = registry w"
  by (simp add: execute_handler_def on_error_registry finish_registry routeAction_registry
           split: option.splits)

lemma handler_cong:
  assumes "registry w = registry w'"
  shows "fst (execute_handler rt w body) = fst (execute_handler rt w' body)"
proof -
  have "\<And>p. fst (case routeAction rt w p of
                 (Inr result, w') \<Rightarrow> (\<lparr>res_status = status result, res_body = data result\<rparr>, w')
               | (Inl e, w') \<Rightarrow> on_error w' e)
           = fst (case routeAction rt w' p of
                 (Inr result, w') \<Rightarrow> (\<lparr>res_status = status result, res_body = data result\<rparr>, w')
               | (Inl e, w') \<Rightarrow> on_error w' e)"
    by (rule finish_cong)
       (simp_all add: routeAction_result_cong [OF assms] routeAction_registry assms)
  then show ?thesis
    using on_error_cong [OF assms]
    by (simp add: execute_handler_def split: option.splits)
qed

lemma handler_accepted:
  assumes "accepted b a ar m"
  shows "execute_handler rt w (Some b) =
     (case routeAction rt w \<lparr>action = a, args = ar, mode = m\<rparr> of
        (Inr result, w') \<Rightarrow> (\<lparr>res_status = status result, res_body = data result\<rparr>, w')
      | (Inl e, w') \<Rightarrow> on_error w' e)"
  using assms by (auto simp: accepted_def execute_handler_def)

lemma built_call_dispatch:
  "built_call u m None (Some (outbound_body ar md)) =
     \<lparr>req_url = u, req_method = (case m of None \<Rightarrow> ''POST'' | Some x \<Rightarrow> x),
      req_headers = [(''Content-Type'', ''application/json'')],
      req_body = JSON_stringify (outbound_body ar md)\<rparr>"
  by (simp add: built_call_def outbound_body_def obj_spread_def)

lemma routeAction_unknown:
  assumes "ToString (number_to_string rt) (action p) = Inr name"
    and "ToString (number_to_string rt) (mode p) = Inr mt"
    and "registry_get (registry w) name = NoProperty"
  shows "fst (routeAction rt w p) = Inl (JsError ''Error'' (''Unknown action: '' @ name))
         \<and> outbound (snd (routeAction rt w p)) = outbound w"
  using assms by (simp add: routeAction_def Let_def)

lemma routeAction_own_result:
  assumes "ToString (number_to_string rt) (action p) = Inr name"
    and "ToString (number_to_string rt) (mode p) = Inr mt"
    and "map_of (registry w) name = Some cfg"
  shows "fst (routeAction rt w p) =
     (case fetch rt \<lparr>req_url = Some (url cfg), req_method = method cfg,
                     req_headers = [(''Content-Type'', ''application/json'')],
                     req_body = JSON_stringify (outbound_body (args p) (mode p))\<rparr> of
        Inl e \<Rightarrow> Inl e
      | Inr r \<Rightarrow> (case resp_json r of
                   Inl e \<Rightarrow> Inl e
                 | Inr d \<Rightarrow> Inr \<lparr>status = resp_status r, data = d\<rparr>))"
  using assms
  by (simp add: routeAction_def Let_def registry_get_def makeRequest_result built_call_dispatch)

lemma routeAction_own_outbound:
  assumes "ToString (number_to_string rt) (action p) = Inr name"
    and "ToString (number_to_string rt) (mode p) = Inr mt"
    and "map_of (registry w) name = Some cfg"
  shows "outbound (snd (routeAction rt w p)) =
           outbound w @ [\<lparr>req_url = Some (url cfg), req_method = method cfg,
                     req_headers = [(''Content-Type'', ''application/json'')],
                     req_body = JSON_stringify (outbound_body (args p) (mode p))\<rparr>]"
  using assms
  by (simp add: routeAction_def Let_def registry_get_def makeRequest_outbound built_call_dispatch)

lemma routeAction_inherited_outbound:
  assumes "ToString (number_to_string rt) (action p) = Inr name"
    and "ToString (number_to_string rt) (mode p) = Inr mt"
    and "registry_get (registry w) name = Inherited k"
  shows "outbound (snd (routeAction rt w p)) =
           outbound w @ [\<lparr>req_url = None, req_method = ''POST'',
                     req_headers = [(''Content-Type'', ''application/json'')],
                     req_body = JSON_stringify (outbound_body (args p) (mode p))\<rparr>]"
  using assms
  by (simp add: routeAction_def Let_def makeRequest_outbound built_call_dispatch)

lemma routeAction_throws_early:
  assumes "ToString (number_to_string rt) (action p) = Inl e
           \<or> ToString (number_to_string rt) (mode p) = Inl e"
  shows "snd (routeAction rt w p) = w"
  using assms by (auto simp: routeAction_def split: sum.splits)

lemma outbound_body_object:
  "distinct (map fst kvs) \<Longrightarrow> outbound_body (JObj kvs) m = JObj (obj_put kvs ''mode'' m)"
  using obj_spread_distinct [of "[]" kvs] by (simp add: outbound_body_def)

lemma mode_in_outbound_body:
  "\<exists>kvs. outbound_body ar m = JObj kvs \<and> map_of kvs ''mode'' = Some m"
  by (simp add: outbound_body_def map_of_obj_put)

lemma on_error_response:
  "fst (on_error w e) =
     (if startsWith (message e) ''Unknown action:''
      then \<lparr>res_status = 404,
            res_body = JObj [(''error'', JStr (message e)),
                             (''availableActions'',
                                JArr (map JStr (getRegisteredActions (registry w))))]\<rparr>
      else \<lparr>res_status = 500,
            res_body = JObj [(''error'', JStr ''Internal server error''),
                             (''message'', JStr (message e))]\<rparr>)"
  by (simp add: on_error_def Let_def)

lemma handler_on_result:
  assumes "accepted b a ar m"
    and "fst (routeAction rt w \<lparr>action = a, args = ar, mode = m\<rparr>) = Inr result"
  shows "fst (execute_handler rt w (Some b))
           = \<lparr>res_status = status result, res_body = data result\<rparr>"
  using assms(2)
  by (cases "routeAction rt w \<lparr>action = a, args = ar, mode = m\<rparr>")
     (simp add: handler_accepted [OF assms(1)])

lemma handler_on_throw:
  assumes "accepted b a ar m"
    and "fst (routeAction rt w \<lparr>action = a, args = ar, mode = m\<rparr>) = Inl e"
  shows "fst (execute_handler rt w (Some b)) = fst (on_error w e)"
proof (cases "routeAction rt w \<lparr>action = a, args = ar, mode = m\<rparr>")
  case (Pair r w')
  with assms(2) have r: "r = Inl e" by simp
  have "registry w' = registry w"
    using routeAction_registry [of rt w "\<lparr>action = a, args = ar, mode = m\<rparr>"] Pair by simp
  then have "fst (on_error w' e) = fst (on_error w e)"
    by (rule on_error_cong)
  then show ?thesis
    by (simp add: handler_accepted [OF assms(1)] Pair r)
qed

lemma accepted_mode_text:
  "accepted b a ar m \<Longrightarrow> \<exists>mt. ToString ns m = Inr mt"
  by (auto simp: accepted_def)

section \<open>Dispatch of a registered action\<close>

text \<open>
  Claim C1. For a request whose action is a key of the registry, \<open>routeAction\<close> hands
  exactly one request to the forwarder and so to \<open>fetch\<close>: its URL and method are those
  of the registered descriptor, and its body is \<open>args\<close> with \<open>mode\<close> set: the key
  \<open>mode\<close> holds the request's mode, overwriting a \<open>mode\<close> of \<open>args\<close>, and every other
  key holds what it holds in \<open>args\<close>.
\<close>

theorem routeAction_forwards_registered:
  assumes "map_of (registry w) name = Some cfg" and "distinct (map fst kvs)"
  shows "outbound (snd (routeAction rt w \<lparr>action = JStr name, args = JObj kvs, mode = JStr m\<rparr>))
           = outbound w @ [\<lparr>req_url = Some (url cfg), req_method = method cfg,
                             req_headers = [(''Content-Type'', ''application/json'')],
                             req_body = JSON_stringify (JObj (obj_put kvs ''mode'' (JStr m)))\<rparr>]
         \<and> map_of (obj_put kvs ''mode'' (JStr m)) ''mode'' = Some (JStr m)
         \<and> (\<forall>k. k \<noteq> ''mode'' \<longrightarrow> map_of (obj_put kvs ''mode'' (JStr m)) k = map_of kvs k)"
proof -
  let ?p = "\<lparr>action = JStr name, args = JObj kvs, mode = JStr m\<rparr>"
  have "outbound (snd (routeAction rt w ?p)) =
          outbound w @ [\<lparr>req_url = Some (url cfg), req_method = method cfg,
                     req_headers = [(''Content-Type'', ''application/json'')],
                     req_body = JSON_stringify (outbound_body (args ?p) (mode ?p))\<rparr>]"
    by (rule routeAction_own_outbound [where name = name and mt = m]) (simp_all add: assms)
  then show ?thesis
    by (simp add: outbound_body_object [OF assms(2)] map_of_obj_put)
qed


theorem routeAction_forwards_registered_witness:
  "map_of (registry started) ''CreateEmployee''
     = Some \<lparr>url = ''http://localhost:3001/employees/create'', method = ''POST''\<rparr>
   \<and> distinct (map fst [(''name'', JStr ''Alice Smith''), (''mode'', JStr ''dry'')])
   \<and> outbound (snd (routeAction runtime_created started
         \<lparr>action = JStr ''CreateEmployee'',
          args = JObj [(''name'', JStr ''Alice Smith''), (''mode'', JStr ''dry'')],
          mode = JStr ''execute''\<rparr>))
       = [\<lparr>req_url = Some ''http://localhost:3001/employees/create'', req_method = ''POST'',
           req_headers = [(''Content-Type'', ''application/json'')],
           req_body = JSON_stringify
             (JObj [(''name'', JStr ''Alice Smith''), (''mode'', JStr ''execute'')])\<rparr>]"
proof -
  have r: "map_of (registry started) ''CreateEmployee''
     = Some \<lparr>url = ''http://localhost:3001/employees/create'', method = ''POST''\<rparr>"
    by code_simp
  have d: "distinct (map fst [(''name'', JStr ''Alice Smith''), (''mode'', JStr ''dry'')])"
    by simp
  have o: "outbound started = []"
    by (simp add: started_def)
  show ?thesis
    using routeAction_forwards_registered [OF r d, of runtime_created "''execute''"] r d o
    by simp
qed

section \<open>The forwarder always receives a body from dispatch\<close>

text \<open>
  Claim C9. Whatever \<open>routeAction\<close> is called with, either it throws before forwarding
  (nothing is sent), or the one request it sends carries the serialisation of an object
  that has the key \<open>mode\<close>, with the JSON content type: the forwarder's branch without a
  body is never taken. In particular \<open>GetEmployee\<close>, registered with method \<open>GET\<close>, is
  sent with such a body.
\<close>

theorem dispatch_always_sends_body:
  "(outbound (snd (routeAction rt w p)) = outbound w
    \<or> (\<exists>c kvs. outbound (snd (routeAction rt w p)) = outbound w @ [c]
          \<and> req_body c = JSON_stringify (JObj kvs)
          \<and> map_of kvs ''mode'' = Some (mode p)
          \<and> map_of (req_headers c) ''Content-Type'' = Some ''application/json''))
   \<and> (registry w = actionRegistry env \<longrightarrow>
        (\<exists>kvs. outbound (snd (routeAction rt w
                   \<lparr>action = JStr ''GetEmployee'', args = ar, mode = JStr m\<rparr>))
                = outbound w @ [\<lparr>req_url = Some (HR_SERVICE_BASE_URL env @ ''/employees/get''),
                                  req_method = ''GET'',
                                  req_headers = [(''Content-Type'', ''application/json'')],
                                  req_body = JSON_stringify (JObj kvs)\<rparr>]
              \<and> map_of kvs ''mode'' = Some (JStr m)))"
proof (intro conjI impI)
  show "outbound (snd (routeAction rt w p)) = outbound w
    \<or> (\<exists>c kvs. outbound (snd (routeAction rt w p)) = outbound w @ [c]
          \<and> req_body c = JSON_stringify (JObj kvs)
          \<and> map_of kvs ''mode'' = Some (mode p)
          \<and> map_of (req_headers c) ''Content-Type'' = Some ''application/json'')"
  proof (cases "ToString (number_to_string rt) (action p)")
    case (Inl e)
    then show ?thesis using routeAction_throws_early [of rt p e w] by simp
  next
    case name: (Inr name)
    show ?thesis
    proof (cases "ToString (number_to_string rt) (mode p)")
      case (Inl e)
      then show ?thesis using routeAction_throws_early [of rt p e w] by simp
    next
      case mt: (Inr mt)
      obtain kvs where kvs: "outbound_body (args p) (mode p) = JObj kvs"
        "map_of kvs ''mode'' = Some (mode p)"
        using mode_in_outbound_body by blast
      show ?thesis
      proof (cases "registry_get (registry w) name")
        case (OwnConfig cfg)
        then have "map_of (registry w) name = Some cfg"
          by (simp add: registry_get_def split: option.splits if_splits)
        from routeAction_own_outbound [OF name mt this] kvs show ?thesis by simp
      next
        case (Inherited k)
        from routeAction_inherited_outbound [OF name mt this] kvs show ?thesis by simp
      next
        case NoProperty
        from routeAction_unknown [OF name mt this] show ?thesis by simp
      qed
    qed
  qed
next
  assume reg: "registry w = actionRegistry env"
  let ?p = "\<lparr>action = JStr ''GetEmployee'', args = ar, mode = JStr m\<rparr>"
  let ?cfg = "\<lparr>url = HR_SERVICE_BASE_URL env @ ''/employees/get'', method = ''GET''\<rparr>"
  have own: "map_of (registry w) ''GetEmployee'' = Some ?cfg"
    by (simp add: reg actionRegistry_def mergeConfigs_def hrServiceConfig_def obj_spread_def)
  obtain kvs where kvs: "outbound_body ar (JStr m) = JObj kvs"
    "map_of kvs ''mode'' = Some (JStr m)"
    using mode_in_outbound_body by blast
  have "outbound (snd (routeAction rt w ?p)) =
          outbound w @ [\<lparr>req_url = Some (url ?cfg), req_method = method ?cfg,
                     req_headers = [(''Content-Type'', ''application/json'')],
                     req_body = JSON_stringify (outbound_body (args ?p) (mode ?p))\<rparr>]"
    by (rule routeAction_own_outbound [where name = "''GetEmployee''" and mt = m])
       (simp_all add: own)
  with kvs show "\<exists>kvs. outbound (snd (routeAction rt w ?p))
                = outbound w @ [\<lparr>req_url = Some (HR_SERVICE_BASE_URL env @ ''/employees/get''),
                                  req_method = ''GET'',
                                  req_headers = [(''Content-Type'', ''application/json'')],
                                  req_body = JSON_stringify (JObj kvs)\<rparr>]
              \<and> map_of kvs ''mode'' = Some (JStr m)"
    by simp
qed

theorem dispatch_always_sends_body_witness:
  "registry started = actionRegistry None
   \<and> outbound (snd (routeAction runtime_created started
         \<lparr>action = JStr ''GetEmployee'', args = JObj [(''id'', JStr ''emp_123'')],
          mode = JStr ''simulate''\<rparr>))
       = [\<lparr>req_url = Some ''http://localhost:3001/employees/get'', req_method = ''GET'',
           req_headers = [(''Content-Type'', ''application/json'')],
           req_body = JSON_stringify
             (JObj [(''id'', JStr ''emp_123''), (''mode'', JStr ''simulate'')])\<rparr>]"
proof -
  have r: "registry started = actionRegistry None"
    by (simp add: started_def)
  have o: "outbound (snd (routeAction runtime_created started
         \<lparr>action = JStr ''GetEmployee'', args = JObj [(''id'', JStr ''emp_123'')],
          mode = JStr ''simulate''\<rparr>))
       = [\<lparr>req_url = Some ''http://localhost:3001/employees/get'', req_method = ''GET'',
           req_headers = [(''Content-Type'', ''application/json'')],
           req_body = JSON_stringify
             (JObj [(''id'', JStr ''emp_123''), (''mode'', JStr ''simulate'')])\<rparr>]"
    by code_simp
  show ?thesis
    using dispatch_always_sends_body
            [of runtime_created started
                "\<lparr>action = JStr ''GetEmployee'', args = JObj [(''id'', JStr ''emp_123'')],
                  mode = JStr ''simulate''\<rparr>"
                None "JObj [(''id'', JStr ''emp_123'')]" "''simulate''"]
          r o
    by simp
qed

section \<open>Statelessness of the request pipeline\<close>

text \<open>
  Claim C8. The pipeline is deterministic and keeps no hidden state: for a fixed runtime
  (number printing and a downstream that is a function of the request it is sent), handling
  a request and then, in the state the first invocation left behind (console lines and
  outbound requests added), handling the same request again gives the same status and
  body; the registry is the same before and after.
\<close>

theorem repeated_request_same_response:
  "fst (execute_handler rt (snd (execute_handler rt w body)) body)
     = fst (execute_handler rt w body)
   \<and> registry (snd (execute_handler rt (snd (execute_handler rt w body)) body)) = registry w"
  by (simp add: handler_registry handler_cong [of "snd (execute_handler rt w body)" w])

theorem repeated_request_same_response_witness:
  "fst (execute_handler runtime_created started
          (Some (envelope (JStr ''CreateEmployee'') alice (JStr ''execute''))))
     = \<lparr>res_status = 200,
        res_body = JObj [(''id'', JStr ''emp_123''), (''status'', JStr ''created'')]\<rparr>
   \<and> fst (execute_handler runtime_created
            (snd (execute_handler runtime_created started
                    (Some (envelope (JStr ''CreateEmployee'') alice (JStr ''execute'')))))
            (Some (envelope (JStr ''CreateEmployee'') alice (JStr ''execute''))))
     = \<lparr>res_status = 200,
        res_body = JObj [(''id'', JStr ''emp_123''), (''status'', JStr ''created'')]\<rparr>"
proof -
  have first: "fst (execute_handler runtime_created started
          (Some (envelope (JStr ''CreateEmployee'') alice (JStr ''execute''))))
     = \<lparr>res_status = 200,
        res_body = JObj [(''id'', JStr ''emp_123''), (''status'', JStr ''created'')]\<rparr>"
    by code_simp
  show ?thesis
    using repeated_request_same_response
            [of runtime_created started
                "Some (envelope (JStr ''CreateEmployee'') alice (JStr ''execute''))"]
          first
    by simp
qed

section \<open>The downstream response reaches the client unchanged\<close>

text \<open>
  Claim C4. For a request that passes validation and whose action resolves to a key of
  the registry, whatever status and JSON value the downstream service answers, 2xx or
  not, \<open>routeAction\<close> returns exactly that status and value, and the handler responds
  with that status and that value as the body.
\<close>

theorem downstream_response_reflected:
  assumes "accepted b a ar m"
    and "ToString (number_to_string rt) a = Inr name"
    and "map_of (registry w) name = Some cfg"
    and "fetch rt \<lparr>req_url = Some (url cfg), req_method = method cfg,
                   req_headers = [(''Content-Type'', ''application/json'')],
                   req_body = JSON_stringify (outbound_body ar m)\<rparr>
           = Inr \<lparr>resp_status = s, resp_json = Inr d\<rparr>"
  shows "fst (routeAction rt w \<lparr>action = a, args = ar, mode = m\<rparr>) = Inr \<lparr>status = s, data = d\<rparr>
         \<and> fst (execute_handler rt w (Some b)) = \<lparr>res_status = s, res_body = d\<rparr>"
proof -
  let ?p = "\<lparr>action = a, args = ar, mode = m\<rparr>"
  from accepted_mode_text [OF assms(1)] obtain mt
    where mt: "ToString (number_to_string rt) m = Inr mt" by blast
  have "fst (routeAction rt w ?p) =
     (case fetch rt \<lparr>req_url = Some (url cfg), req_method = method cfg,
                     req_headers = [(''Content-Type'', ''application/json'')],
                     req_body = JSON_stringify (outbound_body (args ?p) (mode ?p))\<rparr> of
        Inl e \<Rightarrow> Inl e
      | Inr r \<Rightarrow> (case resp_json r of
                   Inl e \<Rightarrow> Inl e
                 | Inr d \<Rightarrow> Inr \<lparr>status = resp_status r, data = d\<rparr>))"
    by (rule routeAction_own_result [where name = name and mt = mt])
       (simp_all add: assms(2,3) mt)
  with assms(4) have r: "fst (routeAction rt w ?p) = Inr \<lparr>status = s, data = d\<rparr>"
    by simp
  from handler_on_result [OF assms(1) r] r show ?thesis by simp
qed

theorem downstream_response_reflected_witness:
  "accepted (envelope (JStr ''CreateEmployee'') alice (JStr ''execute''))
     (JStr ''CreateEmployee'') alice (JStr ''execute'')
   \<and> fst (execute_handler runtime_unprocessable started
            (Some (envelope (JStr ''CreateEmployee'') alice (JStr ''execute''))))
       = \<lparr>res_status = 422, res_body = JObj [(''reason'', JStr ''email taken'')]\<rparr>"
proof -
  let ?cfg = "\<lparr>url = ''http://localhost:3001/employees/create'', method = ''POST''\<rparr>"
  have a: "accepted (envelope (JStr ''CreateEmployee'') alice (JStr ''execute''))
     (JStr ''CreateEmployee'') alice (JStr ''execute'')"
    by (simp add: accepted_def envelope_def alice_def)
  have n: "ToString (number_to_string runtime_unprocessable) (JStr ''CreateEmployee'')
             = Inr ''CreateEmployee''"
    by simp
  have r: "map_of (registry started) ''CreateEmployee'' = Some ?cfg"
    by code_simp
  have f: "fetch runtime_unprocessable
             \<lparr>req_url = Some (url ?cfg), req_method = method ?cfg,
               req_headers = [(''Content-Type'', ''application/json'')],
               req_body = JSON_stringify (outbound_body alice (JStr ''execute''))\<rparr>
           = Inr \<lparr>resp_status = 422,
                  resp_json = Inr (JObj [(''reason'', JStr ''email taken'')])\<rparr>"
    by (simp add: runtime_unprocessable_def fetch_unprocessable_def node_rejects_def)
  show ?thesis
    using downstream_response_reflected [OF a n r f] a by simp
qed

section \<open>Errors of the dispatch path\<close>

text \<open>
  Claim C10. The handler classifies an error thrown by the dispatch path by its message
  alone: whatever the error's name and origin, the response is the 404 response with the
  message and the registered actions if the message starts with \<open>Unknown action:\<close>, and
  the 500 response with the message otherwise.
\<close>

theorem errors_classified_by_message:
  assumes "accepted b a ar m"
    and "fst (routeAction rt w \<lparr>action = a, args = ar, mode = m\<rparr>) = Inl e"
  shows "fst (execute_handler rt w (Some b)) =
           (if startsWith (message e) ''Unknown action:''
            then \<lparr>res_status = 404,
                  res_body = JObj [(''error'', JStr (message e)),
                                   (''availableActions'',
                                      JArr (map JStr (getRegisteredActions (registry w))))]\<rparr>
            else \<lparr>res_status = 500,
                  res_body = JObj [(''error'', JStr ''Internal server error''),
                                   (''message'', JStr (message e))]\<rparr>)
         \<and> (res_status (fst (execute_handler rt w (Some b))) = 404
              \<longleftrightarrow> startsWith (message e) ''Unknown action:'')
         \<and> (res_status (fst (execute_handler rt w (Some b))) = 500
              \<longleftrightarrow> \<not> startsWith (message e) ''Unknown action:'')"
  by (simp add: handler_on_throw [OF assms] on_error_response)


theorem errors_classified_by_message_witness:
  "accepted (envelope (JStr ''DeleteUniverse'') (JObj []) (JStr ''execute''))
     (JStr ''DeleteUniverse'') (JObj []) (JStr ''execute'')
   \<and> fst (routeAction runtime_created started
            \<lparr>action = JStr ''DeleteUniverse'', args = JObj [], mode = JStr ''execute''\<rparr>)
       = Inl (JsError ''Error'' ''Unknown action: DeleteUniverse'')
   \<and> fst (execute_handler runtime_created started
            (Some (envelope (JStr ''DeleteUniverse'') (JObj []) (JStr ''execute''))))
       = \<lparr>res_status = 404,
          res_body = JObj [(''error'', JStr ''Unknown action: DeleteUniverse''),
                           (''availableActions'',
                              JArr [JStr ''CreateEmployee'', JStr ''UpdateEmployee'',
                                    JStr ''DeleteEmployee'', JStr ''GetEmployee''])]\<rparr>
   \<and> accepted (envelope (JStr ''UpdateEmployee'') alice (JStr ''simulate''))
       (JStr ''UpdateEmployee'') alice (JStr ''simulate'')
   \<and> fst (routeAction runtime_refused started
            \<lparr>action = JStr ''UpdateEmployee'', args = alice, mode = JStr ''simulate''\<rparr>)
       = Inl (JsError ''TypeError'' ''fetch failed'')
   \<and> fst (execute_handler runtime_refused started
            (Some (envelope (JStr ''UpdateEmployee'') alice (JStr ''simulate''))))
       = \<lparr>res_status = 500,
          res_body = JObj [(''error'', JStr ''Internal server error''),
                           (''message'', JStr ''fetch failed'')]\<rparr>"
proof -
  have a1: "accepted (envelope (JStr ''DeleteUniverse'') (JObj []) (JStr ''execute''))
     (JStr ''DeleteUniverse'') (JObj []) (JStr ''execute'')"
    by (simp add: accepted_def envelope_def)
  have t1: "fst (routeAction runtime_created started
            \<lparr>action = JStr ''DeleteUniverse'', args = JObj [], mode = JStr ''execute''\<rparr>)
       = Inl (JsError ''Error'' ''Unknown action: DeleteUniverse'')"
    by code_simp
  have p1: "startsWith (message (JsError ''Error'' ''Unknown action: DeleteUniverse''))
             ''Unknown action:''"
    by (simp add: startsWith_def)
  have k: "map JStr (getRegisteredActions (registry started))
             = [JStr ''CreateEmployee'', JStr ''UpdateEmployee'',
                JStr ''DeleteEmployee'', JStr ''GetEmployee'']"
    by code_simp
  have a2: "accepted (envelope (JStr ''UpdateEmployee'') alice (JStr ''simulate''))
     (JStr ''UpdateEmployee'') alice (JStr ''simulate'')"
    by (simp add: accepted_def envelope_def alice_def)
  have t2: "fst (routeAction runtime_refused started
            \<lparr>action = JStr ''UpdateEmployee'', args = alice, mode = JStr ''simulate''\<rparr>)
       = Inl (JsError ''TypeError'' ''fetch failed'')"
    by code_simp
  have p2: "\<not> startsWith (message (JsError ''TypeError'' ''fetch failed'')) ''Unknown action:''"
    by (simp add: startsWith_def)
  show ?thesis
    using errors_classified_by_message [OF a1 t1] errors_classified_by_message [OF a2 t2]
          a1 t1 p1 k a2 t2 p2
    by simp
qed

text \<open>
  Claim C7. The forwarder returns status and parsed body for every status the downstream
  answers with, and throws exactly when \<open>fetch\<close> rejects or the body is not JSON, with
  that error. For an accepted request to a registered action such an error leaves
  \<open>routeAction\<close> as it is, and the handler answers 500 with the error's message. The
  errors meant are those of the runtime's \<open>fetch\<close> and \<open>response.json()\<close>, whose
  messages are the runtime's own texts; none of them starts with \<open>Unknown action:\<close>,
  the prefix that only router.ts writes, and the statement says so of the error at hand.
\<close>

theorem forwarding_error_surfaces:
  assumes "accepted b a ar m"
    and "ToString (number_to_string rt) a = Inr name"
    and "map_of (registry w) name = Some cfg"
  shows
    "(\<forall>w0 u mo ho bo r d.
        fetch rt (built_call u mo ho bo) = Inr r \<and> resp_json r = Inr d
        \<longrightarrow> fst (makeRequest rt w0 u mo ho bo) = Inr \<lparr>status = resp_status r, data = d\<rparr>)
     \<and> (\<forall>w0 u mo ho bo e.
          fst (makeRequest rt w0 u mo ho bo) = Inl e
          \<longleftrightarrow> (fetch rt (built_call u mo ho bo) = Inl e
               \<or> (\<exists>r. fetch rt (built_call u mo ho bo) = Inr r \<and> resp_json r = Inl e)))
     \<and> (\<forall>e.
          (fetch rt \<lparr>req_url = Some (url cfg), req_method = method cfg,
                      req_headers = [(''Content-Type'', ''application/json'')],
                      req_body = JSON_stringify (outbound_body ar m)\<rparr> = Inl e
           \<or> (\<exists>r. fetch rt \<lparr>req_url = Some (url cfg), req_method = method cfg,
                      req_headers = [(''Content-Type'', ''application/json'')],
                      req_body = JSON_stringify (outbound_body ar m)\<rparr> = Inr r
                  \<and> resp_json r = Inl e))
          \<and> \<not> startsWith (message e) ''Unknown action:''
          \<longrightarrow> fst (routeAction rt w \<lparr>action = a, args = ar, mode = m\<rparr>) = Inl e
              \<and> fst (execute_handler rt w (Some b))
                  = \<lparr>res_status = 500,
                     res_body = JObj [(''error'', JStr ''Internal server error''),
                                      (''message'', JStr (message e))]\<rparr>)"
proof (intro conjI)
  show "\<forall>w0 u mo ho bo r d.
        fetch rt (built_call u mo ho bo) = Inr r \<and> resp_json r = Inr d
        \<longrightarrow> fst (makeRequest rt w0 u mo ho bo) = Inr \<lparr>status = resp_status r, data = d\<rparr>"
    by (simp add: makeRequest_result)
next
  show "\<forall>w0 u mo ho bo e.
          fst (makeRequest rt w0 u mo ho bo) = Inl e
          \<longleftrightarrow> (fetch rt (built_call u mo ho bo) = Inl e
               \<or> (\<exists>r. fetch rt (built_call u mo ho bo) = Inr r \<and> resp_json r = Inl e))"
    by (auto simp: makeRequest_result split: sum.splits)
next
  let ?p = "\<lparr>action = a, args = ar, mode = m\<rparr>"
  let ?c = "\<lparr>req_url = Some (url cfg), req_method = method cfg,
             req_headers = [(''Content-Type'', ''application/json'')],
             req_body = JSON_stringify (outbound_body ar m)\<rparr>"
  show "\<forall>e. (fetch rt ?c = Inl e \<or> (\<exists>r. fetch rt ?c = Inr r \<and> resp_json r = Inl e))
          \<and> \<not> startsWith (message e) ''Unknown action:''
          \<longrightarrow> fst (routeAction rt w ?p) = Inl e
              \<and> fst (execute_handler rt w (Some b))
                  = \<lparr>res_status = 500,
                     res_body = JObj [(''error'', JStr ''Internal server error''),
                                      (''message'', JStr (message e))]\<rparr>"
  proof (intro allI impI)
    fix e
    assume h: "(fetch rt ?c = Inl e \<or> (\<exists>r. fetch rt ?c = Inr r \<and> resp_json r = Inl e))
               \<and> \<not> startsWith (message e) ''Unknown action:''"
    from accepted_mode_text [OF assms(1)] obtain mt
      where mt: "ToString (number_to_string rt) m = Inr mt" by blast
    have "fst (routeAction rt w ?p) =
       (case fetch rt \<lparr>req_url = Some (url cfg), req_method = method cfg,
                       req_headers = [(''Content-Type'', ''application/json'')],
                       req_body = JSON_stringify (outbound_body (args ?p) (mode ?p))\<rparr> of
          Inl e \<Rightarrow> Inl e
        | Inr r \<Rightarrow> (case resp_json r of
                     Inl e \<Rightarrow> Inl e
                   | Inr d \<Rightarrow> Inr \<lparr>status = resp_status r, data = d\<rparr>))"
      by (rule routeAction_own_result [where name = name and mt = mt])
         (simp_all add: assms(2,3) mt)
    with h have thrown: "fst (routeAction rt w ?p) = Inl e"
      by auto
    from h have "fst (on_error w e)
        = \<lparr>res_status = 500,
           res_body = JObj [(''error'', JStr ''Internal server error''),
                            (''message'', JStr (message e))]\<rparr>"
      by (simp add: on_error_response)
    with handler_on_throw [OF assms(1) thrown] thrown
    show "fst (routeAction rt w ?p) = Inl e
            \<and> fst (execute_handler rt w (Some b))
                = \<lparr>res_status = 500,
                   res_body = JObj [(''error'', JStr ''Internal server error''),
                                    (''message'', JStr (message e))]\<rparr>"
      by simp
  qed
qed

theorem forwarding_error_surfaces_witness:
  "accepted (envelope (JStr ''CreateEmployee'') alice (JStr ''execute''))
     (JStr ''CreateEmployee'') alice (JStr ''execute'')
   \<and> fst (execute_handler runtime_refused started
            (Some (envelope (JStr ''CreateEmployee'') alice (JStr ''execute''))))
       = \<lparr>res_status = 500,
          res_body = JObj [(''error'', JStr ''Internal server error''),
                           (''message'', JStr ''fetch failed'')]\<rparr>
   \<and> fst (execute_handler runtime_html started
            (Some (envelope (JStr ''CreateEmployee'') alice (JStr ''execute''))))
       = \<lparr>res_status = 500,
          res_body = JObj [(''error'', JStr ''Internal server error''),
                           (''message'', JStr ''Unexpected token < in JSON at position 0'')]\<rparr>
   \<and> fst (makeRequest runtime_unprocessable started
            (Some ''http://localhost:3001/employees/create'') (Some ''POST'') None
            (Some (outbound_body alice (JStr ''execute''))))
       = Inr \<lparr>status = 422, data = JObj [(''reason'', JStr ''email taken'')]\<rparr>"
proof -
  let ?b = "envelope (JStr ''CreateEmployee'') alice (JStr ''execute'')"
  let ?cfg = "\<lparr>url = ''http://localhost:3001/employees/create'', method = ''POST''\<rparr>"
  let ?c = "\<lparr>req_url = Some (url ?cfg), req_method = method ?cfg,
             req_headers = [(''Content-Type'', ''application/json'')],
             req_body = JSON_stringify (outbound_body alice (JStr ''execute''))\<rparr>"
  let ?refused = "JsError ''TypeError'' ''fetch failed''"
  let ?unparsable = "JsError ''SyntaxError'' ''Unexpected token < in JSON at position 0''"
  let ?page = "\<lparr>resp_status = 502, resp_json = Inl ?unparsable\<rparr>"
  let ?answer = "\<lparr>resp_status = 422,
                   resp_json = Inr (JObj [(''reason'', JStr ''email taken'')])\<rparr>"
  have a: "accepted ?b (JStr ''CreateEmployee'') alice (JStr ''execute'')"
    by (simp add: accepted_def envelope_def alice_def)
  have r: "map_of (registry started) ''CreateEmployee'' = Some ?cfg"
    by code_simp
  have n1: "ToString (number_to_string runtime_refused) (JStr ''CreateEmployee'')
              = Inr ''CreateEmployee''"
    by simp
  have f1: "fetch runtime_refused ?c = Inl ?refused"
    by (simp add: runtime_refused_def fetch_refused_def node_rejects_def)
  have p1: "\<not> startsWith (message ?refused) ''Unknown action:''"
    by (simp add: startsWith_def)
  have n2: "ToString (number_to_string runtime_html) (JStr ''CreateEmployee'')
              = Inr ''CreateEmployee''"
    by simp
  have f2: "fetch runtime_html ?c = Inr ?page \<and> resp_json ?page = Inl ?unparsable"
    by (simp add: runtime_html_def fetch_html_def node_rejects_def)
  have p2: "\<not> startsWith (message ?unparsable) ''Unknown action:''"
    by (simp add: startsWith_def)
  have n3: "ToString (number_to_string runtime_unprocessable) (JStr ''CreateEmployee'')
              = Inr ''CreateEmployee''"
    by simp
  have f3: "fetch runtime_unprocessable
              (built_call (Some ''http://localhost:3001/employees/create'') (Some ''POST'') None
                 (Some (outbound_body alice (JStr ''execute''))))
            = Inr ?answer \<and> resp_json ?answer = Inr (JObj [(''reason'', JStr ''email taken'')])"
    by (simp add: runtime_unprocessable_def fetch_unprocessable_def node_rejects_def
                  built_call_dispatch)
  have s1: "fst (execute_handler runtime_refused started (Some ?b))
       = \<lparr>res_status = 500,
          res_body = JObj [(''error'', JStr ''Internal server error''),
                           (''message'', JStr (message ?refused))]\<rparr>"
    using forwarding_error_surfaces [OF a n1 r] f1 p1 by blast
  have s2: "fst (execute_handler runtime_html started (Some ?b))
       = \<lparr>res_status = 500,
          res_body = JObj [(''error'', JStr ''Internal server error''),
                           (''message'', JStr (message ?unparsable))]\<rparr>"
    using forwarding_error_surfaces [OF a n2 r] f2 p2 by blast
  have s3: "fst (makeRequest runtime_unprocessable started
            (Some ''http://localhost:3001/employees/create'') (Some ''POST'') None
            (Some (outbound_body alice (JStr ''execute''))))
       = Inr \<lparr>status = resp_status ?answer, data = JObj [(''reason'', JStr ''email taken'')]\<rparr>"
    using forwarding_error_surfaces [OF a n3 r] f3 by blast
  from a s1 s2 s3 show ?thesis by simp
qed

section \<open>Validation of the envelope\<close>

text \<open>
  Claim C3, as stated, fails: the checks are truthiness tests, so \<open>args\<close> that is \<open>true\<close>
  (no mapping) and an action that is an array (no string) pass them and are dispatched.
\<close>

theorem truthy_non_mapping_args_dispatched:
  "fst (execute_handler runtime_created started
          (Some (envelope (JStr ''CreateEmployee'') (JBool True) (JStr ''execute''))))
     = \<lparr>res_status = 200,
        res_body = JObj [(''id'', JStr ''emp_123''), (''status'', JStr ''created'')]\<rparr>
   \<and> outbound (snd (execute_handler runtime_created started
          (Some (envelope (JStr ''CreateEmployee'') (JBool True) (JStr ''execute'')))))
     = [\<lparr>req_url = Some ''http://localhost:3001/employees/create'', req_method = ''POST'',
         req_headers = [(''Content-Type'', ''application/json'')],
         req_body = JSON_stringify (JObj [(''mode'', JStr ''execute'')])\<rparr>]
   \<and> fst (execute_handler runtime_created started
          (Some (envelope (JArr [JStr ''CreateEmployee'']) alice (JStr ''execute''))))
     = \<lparr>res_status = 200,
        res_body = JObj [(''id'', JStr ''emp_123''), (''status'', JStr ''created'')]\<rparr>"
  by code_simp

text \<open>
  Claim C3 (amended). For a request with a parsed body, the handler answers 400 and
  nothing is dispatched (no console line, no outbound request) whenever \<open>action\<close> is
  missing or falsy, whenever \<open>args\<close> is missing or falsy, or whenever \<open>mode\<close> is not
  exactly the string \<open>simulate\<close> or \<open>execute\<close>, each whatever the other two fields are.
\<close>

theorem falsy_fields_rejected:
  assumes "b \<noteq> JNull"
    and "falsy (destructure b ''action'')
         \<or> falsy (destructure b ''args'')
         \<or> (destructure b ''mode'' \<noteq> Some (JStr ''simulate'')
             \<and> destructure b ''mode'' \<noteq> Some (JStr ''execute''))"
  shows "res_status (fst (execute_handler rt w (Some b))) = 400
         \<and> snd (execute_handler rt w (Some b)) = w"
proof -
  show ?thesis
    using assms
    by (auto simp: execute_handler_def falsy_def missing_action_def missing_args_def
                   invalid_mode_def
             split: option.splits)
qed

theorem falsy_fields_rejected_witness:
  "res_status (fst (execute_handler runtime_created started
      (Some (JObj [(''args'', alice), (''mode'', JStr ''execute'')])))) = 400
   \<and> snd (execute_handler runtime_created started
      (Some (JObj [(''args'', alice), (''mode'', JStr ''execute'')]))) = started
   \<and> res_status (fst (execute_handler runtime_created started
      (Some (JObj [(''action'', JStr ''CreateEmployee''), (''mode'', JStr ''execute'')])))) = 400
   \<and> res_status (fst (execute_handler runtime_created started
      (Some (envelope (JStr ''CreateEmployee'') alice (JStr ''Execute''))))) = 400"
proof -
  have n1: "JObj [(''args'', alice), (''mode'', JStr ''execute'')] \<noteq> JNull" by simp
  have h1: "falsy (destructure (JObj [(''args'', alice), (''mode'', JStr ''execute'')]) ''action'')
            \<or> falsy (destructure (JObj [(''args'', alice), (''mode'', JStr ''execute'')]) ''args'')
            \<or> (destructure (JObj [(''args'', alice), (''mode'', JStr ''execute'')]) ''mode''
                  \<noteq> Some (JStr ''simulate'')
                \<and> destructure (JObj [(''args'', alice), (''mode'', JStr ''execute'')]) ''mode''
                  \<noteq> Some (JStr ''execute''))"
    by (simp add: falsy_def)
  have n2: "JObj [(''action'', JStr ''CreateEmployee''), (''mode'', JStr ''execute'')] \<noteq> JNull"
    by simp
  have h2: "falsy (destructure (JObj [(''action'', JStr ''CreateEmployee''), (''mode'', JStr ''execute'')]) ''action'')
            \<or> falsy (destructure (JObj [(''action'', JStr ''CreateEmployee''), (''mode'', JStr ''execute'')]) ''args'')
            \<or> (destructure (JObj [(''action'', JStr ''CreateEmployee''), (''mode'', JStr ''execute'')]) ''mode''
                  \<noteq> Some (JStr ''simulate'')
                \<and> destructure (JObj [(''action'', JStr ''CreateEmployee''), (''mode'', JStr ''execute'')]) ''mode''
                  \<noteq> Some (JStr ''execute''))"
    by (simp add: falsy_def)
  have n3: "envelope (JStr ''CreateEmployee'') alice (JStr ''Execute'') \<noteq> JNull"
    by (simp add: envelope_def)
  have h3: "falsy (destructure (envelope (JStr ''CreateEmployee'') alice (JStr ''Execute'')) ''action'')
            \<or> falsy (destructure (envelope (JStr ''CreateEmployee'') alice (JStr ''Execute'')) ''args'')
            \<or> (destructure (envelope (JStr ''CreateEmployee'') alice (JStr ''Execute'')) ''mode''
                  \<noteq> Some (JStr ''simulate'')
                \<and> destructure (envelope (JStr ''CreateEmployee'') alice (JStr ''Execute'')) ''mode''
                  \<noteq> Some (JStr ''execute''))"
    by (simp add: envelope_def)
  show ?thesis
    using falsy_fields_rejected [OF n1 h1, of runtime_created started]
          falsy_fields_rejected [OF n2 h2, of runtime_created started]
          falsy_fields_rejected [OF n3 h3, of runtime_created started]
    by simp
qed

section \<open>Names inherited from the prototype\<close>

text \<open>
  Claim C2 at the name \<open>constructor\<close>, which is no key of the registry: the lookup finds
  the inherited property, no unknown-action error is thrown, and a request with an
  undefined URL is handed to \<open>fetch\<close>.
\<close>

theorem inherited_name_is_forwarded:
  "map_of (registry started) ''constructor'' = None
   \<and> fst (routeAction runtime_created started
            \<lparr>action = JStr ''constructor'', args = JObj [], mode = JStr ''execute''\<rparr>)
       = Inl (JsError ''TypeError'' ''Failed to parse URL from undefined'')
   \<and> outbound (snd (routeAction runtime_created started
            \<lparr>action = JStr ''constructor'', args = JObj [], mode = JStr ''execute''\<rparr>))
       = [\<lparr>req_url = None, req_method = ''POST'',
           req_headers = [(''Content-Type'', ''application/json'')],
           req_body = JSON_stringify (JObj [(''mode'', JStr ''execute'')])\<rparr>]"
  by code_simp

lemma routeAction_inherited_result:
  assumes "ToString (number_to_string rt) (action p) = Inr name"
    and "ToString (number_to_string rt) (mode p) = Inr mt"
    and "registry_get (registry w) name = Inherited k"
  shows "fst (routeAction rt w p) =
     (case fetch rt \<lparr>req_url = None, req_method = ''POST'',
                     req_headers = [(''Content-Type'', ''application/json'')],
                     req_body = JSON_stringify (outbound_body (args p) (mode p))\<rparr> of
        Inl e \<Rightarrow> Inl e
      | Inr r \<Rightarrow> (case resp_json r of
                   Inl e \<Rightarrow> Inl e
                 | Inr d \<Rightarrow> Inr \<lparr>status = resp_status r, data = d\<rparr>))"
  using assms
  by (simp add: routeAction_def Let_def makeRequest_result built_call_dispatch)

text \<open>
  Claim C5 at a name inherited from the prototype, such as \<open>toString\<close>, that is no key of
  the registry: when \<open>fetch\<close> rejects the undefined URL, the handler answers 500 with the
  message of that failure, not 404 with the registered actions.
\<close>

theorem inherited_name_gets_500:
  assumes "accepted b (JStr name) ar m"
    and "name \<in> set object_prototype_keys"
    and "map_of (registry w) name = None"
    and "fetch rt \<lparr>req_url = None, req_method = ''POST'',
                   req_headers = [(''Content-Type'', ''application/json'')],
                   req_body = JSON_stringify (outbound_body ar m)\<rparr> = Inl e"
    and "\<not> startsWith (message e) ''Unknown action:''"
  shows "fst (execute_handler rt w (Some b))
           = \<lparr>res_status = 500,
              res_body = JObj [(''error'', JStr ''Internal server error''),
                               (''message'', JStr (message e))]\<rparr>"
proof -
  let ?p = "\<lparr>action = JStr name, args = ar, mode = m\<rparr>"
  from accepted_mode_text [OF assms(1)] obtain mt
    where mt: "ToString (number_to_string rt) m = Inr mt" by blast
  have inh: "registry_get (registry w) name = Inherited name"
    using assms(2,3) by (simp add: registry_get_def)
  have "fst (routeAction rt w ?p) =
     (case fetch rt \<lparr>req_url = None, req_method = ''POST'',
                     req_headers = [(''Content-Type'', ''application/json'')],
                     req_body = JSON_stringify (outbound_body (args ?p) (mode ?p))\<rparr> of
        Inl e \<Rightarrow> Inl e
      | Inr r \<Rightarrow> (case resp_json r of
                   Inl e \<Rightarrow> Inl e
                 | Inr d \<Rightarrow> Inr \<lparr>status = resp_status r, data = d\<rparr>))"
    by (rule routeAction_inherited_result [where name = name and mt = mt and k = name])
       (simp_all add: mt inh)
  with assms(4) have thrown: "fst (routeAction rt w ?p) = Inl e"
    by simp
  from handler_on_throw [OF assms(1) thrown] assms(5) show ?thesis
    by (simp add: on_error_response)
qed

theorem inherited_name_gets_500_witness:
  "accepted (envelope (JStr ''toString'') (JObj []) (JStr ''execute''))
     (JStr ''toString'') (JObj []) (JStr ''execute'')
   \<and> ''toString'' \<in> set object_prototype_keys
   \<and> map_of (registry started) ''toString'' = None
   \<and> fst (execute_handler runtime_created started
            (Some (envelope (JStr ''toString'') (JObj []) (JStr ''execute''))))
       = \<lparr>res_status = 500,
          res_body = JObj [(''error'', JStr ''Internal server error''),
                           (''message'', JStr ''Failed to parse URL from undefined'')]\<rparr>"
proof -
  let ?e = "JsError ''TypeError'' ''Failed to parse URL from undefined''"
  have a: "accepted (envelope (JStr ''toString'') (JObj []) (JStr ''execute''))
     (JStr ''toString'') (JObj []) (JStr ''execute'')"
    by (simp add: accepted_def envelope_def)
  have k: "''toString'' \<in> set object_prototype_keys"
    by (simp add: object_prototype_keys_def)
  have r: "map_of (registry started) ''toString'' = None"
    by code_simp
  have f: "fetch runtime_created
             \<lparr>req_url = None, req_method = ''POST'',
               req_headers = [(''Content-Type'', ''application/json'')],
               req_body = JSON_stringify (outbound_body (JObj []) (JStr ''execute''))\<rparr> = Inl ?e"
    by (simp add: runtime_created_def fetch_created_def node_rejects_def)
  have p: "\<not> startsWith (message ?e) ''Unknown action:''"
    by (simp add: startsWith_def)
  show ?thesis
    using inherited_name_gets_500 [OF a k r f p] a k r by simp
qed

end
